theory Spec2Isabelle
  imports Main "HOL-Library.Word"
begin

section \<open>Errors and array primitives\<close>

text \<open>
  The exceptions that \<open>seegpy/io/read.py\<close> can end with. \<open>AssertionError\<close> is what an
  \<open>assert\<close> statement raises; \<open>IndexError\<close>, \<open>KeyError\<close>, \<open>ValueError\<close> and
  \<open>TypeError\<close> come from indexing and stacking arrays; \<open>FileNotFoundError\<close> and
  \<open>NotADirectoryError\<close> come from the operating system; \<open>DecodeError\<close> stands for
  whatever a decoding library (neo, h5py, scipy, mat73) raises on a file it cannot read.
\<close>

datatype error =
    AssertionError
  | IndexError
  | KeyError
  | ValueError
  | TypeError
  | FileNotFoundError
  | NotADirectoryError
  | DecodeError

text \<open>
  A numpy array of at most one dimension: \<open>squeeze\<close> turns a one-element vector into a
  zero-dimensional array, which cannot be sliced or indexed any more.
\<close>

datatype 'a ndarray = Arr0 'a | Arr1 "'a list"

definition squeeze :: "'a list \<Rightarrow> 'a ndarray" where
  "squeeze xs = (case xs of [x] \<Rightarrow> Arr0 x | _ \<Rightarrow> Arr1 xs)"

text \<open>\<open>a[idx]\<close> for an array of (non-negative) positions: every position must exist.\<close>

definition take_idx :: "'a list \<Rightarrow> nat list \<Rightarrow> error + 'a list" where
  "take_idx xs idx =
     (if list_all (\<lambda>i. i < length xs) idx then Inr (map (\<lambda>i. xs ! i) idx)
      else Inl IndexError)"

text \<open>\<open>a[mask]\<close> for a boolean mask: the mask must be as long as the array.\<close>

definition mask_select :: "'a list \<Rightarrow> bool list \<Rightarrow> error + 'a list" where
  "mask_select xs msk =
     (if length msk \<noteq> length xs then Inl IndexError
      else Inr (map fst (filter snd (zip xs msk))))"

text \<open>\<open>np.where(d)[0]\<close>: the positions of the nonzero entries of \<open>d\<close>.\<close>

definition where_nz :: "64 word list \<Rightarrow> nat list" where
  "where_nz d = filter (\<lambda>i. d ! i \<noteq> 0) [0..<length d]"

section \<open>The trigger extraction of \<open>read_pramat\<close>\<close>

text \<open>
  Trigger codes are \<open>int64\<close> values (\<open>astype(int)\<close>), so the difference of two
  neighbours wraps around. \<open>first_only\<close> is
  \<open>np.where(trig_event[1::] - trig_event[:-1])[0] + 1\<close>.
\<close>

definition first_only :: "64 word list \<Rightarrow> nat list" where
  "first_only ev = map (\<lambda>i. i + 1) (where_nz (map2 (-) (tl ev) (butlast ev)))"

text \<open>
  Lines 245 to 251 of \<open>read_pramat\<close>, on the arrays they receive: the trigger line after
  \<open>squeeze\<close> and the time vector after \<open>squeeze\<close>.
\<close>

definition extract_events ::
  "64 word ndarray \<Rightarrow> 't ndarray \<Rightarrow> error + (64 word list \<times> 't list)" where
  "extract_events trig_event tms =
     (case trig_event of
        Arr0 _ \<Rightarrow> Inl IndexError
      | Arr1 ev \<Rightarrow>
          let fo = first_only ev in
          (case take_idx ev fo of
             Inl e \<Rightarrow> Inl e
           | Inr ev1 \<Rightarrow>
               (case tms of
                  Arr0 _ \<Rightarrow> Inl IndexError
                | Arr1 ts \<Rightarrow>
                    (case take_idx ts fo of
                       Inl e \<Rightarrow> Inl e
                     | Inr ts1 \<Rightarrow>
                         let nnz = map (\<lambda>c. c \<noteq> 0) ev1 in
                         (case mask_select ev1 nnz of
                            Inl e \<Rightarrow> Inl e
                          | Inr ev2 \<Rightarrow>
                              (case mask_select ts1 nnz of
                                 Inl e \<Rightarrow> Inl e
                               | Inr ts2 \<Rightarrow> Inr (ev2, ts2)))))))"

section \<open>Strings and paths\<close>

text \<open>
  Channel names and type labels are ASCII text. \<open>upper\<close> is \<open>str.upper\<close>,
  \<open>strip\<close> is \<open>str.strip\<close> (blanks are the ASCII white space characters) and
  \<open>remove_spaces\<close> is \<open>replace(' ', '')\<close>.
\<close>

definition upper_char :: "char \<Rightarrow> char" where
  "upper_char c =
     (case map_of (zip ''abcdefghijklmnopqrstuvwxyz'' ''ABCDEFGHIJKLMNOPQRSTUVWXYZ'') c of
        None \<Rightarrow> c
      | Some u \<Rightarrow> u)"

definition upper :: "string \<Rightarrow> string" where
  "upper s = map upper_char s"

definition is_space :: "char \<Rightarrow> bool" where
  "is_space c = (let n = (of_char c :: nat) in (9 \<le> n \<and> n \<le> 13) \<or> (28 \<le> n \<and> n \<le> 32))"

definition strip :: "string \<Rightarrow> string" where
  "strip s = rev (dropWhile is_space (rev (dropWhile is_space s)))"

definition remove_spaces :: "string \<Rightarrow> string" where
  "remove_spaces s = filter (\<lambda>c. c \<noteq> CHR '' '') s"

text \<open>\<open>os.path.join\<close> of two components, on a POSIX system.\<close>

definition join :: "string \<Rightarrow> string \<Rightarrow> string" where
  "join a b =
     (if b \<noteq> [] \<and> hd b = CHR ''/'' then b
      else if a = [] \<or> last a = CHR ''/'' then a @ b
      else a @ ''/'' @ b)"

section \<open>The vendor binary reader \<open>read_trc\<close>\<close>

text \<open>
  What neo's \<open>MicromedIO.read_segment\<close> gives for a file: the analog signals (name,
  unit as text, sampling rate, samples) and the event streams (labels as text, times).
  Sample values, times and rates are floating-point numbers that the reader only moves
  around, so their type is left open.
\<close>

record 'v analogsignal =
  sig_name :: string
  sig_units :: string
  sig_sampling_rate :: 'v
  sig_samples :: "'v list"

record 'v event =
  ev_labels :: "string list"
  ev_times :: "'v list"

record 'v segment =
  seg_analogsignals :: "'v analogsignal list"
  seg_events :: "'v event list"

text \<open>
  The surroundings of \<open>read_trc\<close>: \<open>os.path.isfile\<close>, the neo reader, the channel
  classifier \<open>detect_seeg_contacts\<close> (names, units, expected unit) of
  \<open>seegpy.contacts.utils\<close>, and numpy's conversion of one label to an \<open>int64\<close>.
\<close>

record 'v trc_env =
  isfile :: "string \<Rightarrow> bool"
  micromed_read :: "string \<Rightarrow> error + 'v segment"
  detect_seeg_contacts :: "string list \<Rightarrow> string list \<Rightarrow> string \<Rightarrow> bool list"
  astype_int :: "string \<Rightarrow> error + 64 word"

text \<open>The tuple that both readers return.\<close>

record 'v recording =
  rec_sf :: 'v
  rec_raw :: "'v list list"
  rec_seeg_chan :: "string list"
  rec_trig_event :: "64 word list"
  rec_trig_time :: "'v list"

definition read_contacts_trc :: "'v trc_env \<Rightarrow> string \<Rightarrow> error + (string list \<times> string list)" where
  "read_contacts_trc env path =
     (case micromed_read env path of
        Inl e \<Rightarrow> Inl e
      | Inr seg \<Rightarrow>
          Inr (map (\<lambda>s. upper (strip (remove_spaces (sig_name s)))) (seg_analogsignals seg),
               map sig_units (seg_analogsignals seg)))"

text \<open>\<open>astype(int)\<close> on an array of labels: the first label that is no integer raises.\<close>

fun astype_all :: "(string \<Rightarrow> error + 64 word) \<Rightarrow> string list \<Rightarrow> error + 64 word list" where
  "astype_all conv [] = Inr []"
| "astype_all conv (l # ls) =
     (case conv l of
        Inl e \<Rightarrow> Inl e
      | Inr c \<Rightarrow> (case astype_all conv ls of Inl e \<Rightarrow> Inl e | Inr cs \<Rightarrow> Inr (c # cs)))"

text \<open>
  \<open>np.stack\<close>: at least one row, and all rows of one shape. (Each row is a squeezed
  signal; rows of one sample each stack to a one-dimensional array with as many entries.)
\<close>

definition np_stack :: "'v list list \<Rightarrow> error + 'v list list" where
  "np_stack rows =
     (if rows = [] then Inl ValueError
      else if list_all (\<lambda>r. length r = length (hd rows)) rows then Inr rows
      else Inl ValueError)"

text \<open>
  The filtering step of \<open>read_trc\<close> (lines 125, 126 and 139 to 142): the names and the
  positions under the mask, then the signals at these positions, stacked.
\<close>

definition select_channels ::
  "string list \<Rightarrow> bool list \<Rightarrow> 'v analogsignal list \<Rightarrow> error + (string list \<times> 'v list list)" where
  "select_channels ch_names is_seeg sigs =
     (case mask_select ch_names is_seeg of
        Inl e \<Rightarrow> Inl e
      | Inr seeg_chan \<Rightarrow>
          (case mask_select [0..<length ch_names] is_seeg of
             Inl e \<Rightarrow> Inl e
           | Inr seeg_nb \<Rightarrow>
               (case take_idx sigs seeg_nb of
                  Inl e \<Rightarrow> Inl e
                | Inr sel \<Rightarrow>
                    (case np_stack (map sig_samples sel) of
                       Inl e \<Rightarrow> Inl e
                     | Inr rw \<Rightarrow> Inr (seeg_chan, rw)))))"

definition read_trc :: "'v trc_env \<Rightarrow> string \<Rightarrow> error + 'v recording" where
  "read_trc env bloc =
     (if \<not> isfile env bloc then Inl AssertionError
      else
        (case micromed_read env bloc of
           Inl e \<Rightarrow> Inl e
         | Inr seg \<Rightarrow>
             (case seg_analogsignals seg of
                [] \<Rightarrow> Inl IndexError
              | s0 # _ \<Rightarrow>
                  (case read_contacts_trc env bloc of
                     Inl e \<Rightarrow> Inl e
                   | Inr (ch_names, ch_units) \<Rightarrow>
                       let is_seeg = detect_seeg_contacts env ch_names ch_units ''uV'' in
                       (case mask_select ch_names is_seeg of
                          Inl e \<Rightarrow> Inl e
                        | Inr _ \<Rightarrow>
                            (case seg_events seg of
                               [] \<Rightarrow> Inl IndexError
                             | ev # _ \<Rightarrow>
                                 (case astype_all (astype_int env) (ev_labels ev) of
                                    Inl e \<Rightarrow> Inl e
                                  | Inr trig_event \<Rightarrow>
                                      (case select_channels ch_names is_seeg
                                              (seg_analogsignals seg) of
                                         Inl e \<Rightarrow> Inl e
                                       | Inr (seeg_chan, rw) \<Rightarrow>
                                           Inr \<lparr>rec_sf = sig_sampling_rate s0,
                                                rec_raw = rw,
                                                rec_seeg_chan = seeg_chan,
                                                rec_trig_event = trig_event,
                                                rec_trig_time = ev_times ev\<rparr>))))))))"

section \<open>The matrix reader \<open>read_pramat\<close>\<close>

text \<open>
  How one of the first two header backends ends: both list comprehensions ran
  (\<open>Decoded cn ct\<close>), an exception came before \<open>cn\<close> was assigned (\<open>Raised\<close>), or
  \<open>cn\<close> was assigned and the computation of \<open>ct\<close> raised (\<open>Raised_after_names cn\<close>).
\<close>

datatype attempt =
    Decoded "string list" "string list"
  | Raised
  | Raised_after_names "string list"

text \<open>The raw file as h5py shows it: a missing key raises \<open>KeyError\<close>.\<close>

record 'v h5file =
  h5_srate :: "'v list list option"
  h5_time :: "'v list option"
  h5_raw :: "'v list list option"

text \<open>
  The surroundings of \<open>read_pramat\<close>: \<open>os.path.isdir\<close>, \<open>os.listdir\<close>, the three
  header backends on a path, \<open>h5py.File\<close> on the raw file, and the rounding of one
  stored trigger value to an \<open>int64\<close> (\<open>np.round\<close>, then \<open>astype(int)\<close>).
\<close>

record 'v mat_env =
  isdir :: "string \<Rightarrow> bool"
  listdir :: "string \<Rightarrow> error + string list"
  h5py_header :: "string \<Rightarrow> attempt"
  scipy_header :: "string \<Rightarrow> attempt"
  mat73_header :: "string \<Rightarrow> error + (string list \<times> string list)"
  h5py_File :: "string \<Rightarrow> error + 'v h5file"
  round_int :: "'v \<Rightarrow> 64 word"

definition msg_multiple :: string where
  "msg_multiple = ''Multiple matlab files detected. Forcing iEEG.mat''"

definition msg_hdf5 :: string where
  "msg_hdf5 = ''Extraction failed with HDF5. Trying with scipy''"

definition msg_scipy :: string where
  "msg_scipy = ''Extraction failed with scipy. Trying with mat73''"

text \<open>
  Lines 175 to 186: the header path and the raw path, with the messages logged on the
  way. A result is always paired with the log written up to that point.
\<close>

definition build_path ::
  "'v mat_env \<Rightarrow> string \<Rightarrow> (error + (string \<times> string)) \<times> string list" where
  "build_path env mat_root =
     (let path_head = join mat_root ''alignedData'' in
      case listdir env path_head of
        Inl e \<Rightarrow> (Inl e, [])
      | Inr files_head \<Rightarrow>
          if length files_head \<noteq> 1 then (Inl AssertionError, [])
          else
            let path_head = join path_head (files_head ! 0);
                path_raw = join (join mat_root ''rawData'') ''amplifierData'' in
            (case listdir env path_raw of
               Inl e \<Rightarrow> (Inl e, [])
             | Inr files_raw \<Rightarrow>
                 let narrowed = (length files_raw > 1);
                     files_raw = (if narrowed then [''iEEG.mat''] else files_raw);
                     lg = (if narrowed then [msg_multiple] else []) in
                 if length files_raw \<noteq> 1 then (Inl AssertionError, lg)
                 else (Inr (path_head, join path_raw (files_raw ! 0)), lg)))"

text \<open>
  One \<open>try\<close> block of the header decoding, entered with \<open>cn = []\<close> and \<open>ct = []\<close>:
  the lists afterwards, and the message logged by the \<open>except\<close> branch.
\<close>

definition try_backend ::
  "attempt \<Rightarrow> string \<Rightarrow> (string list \<times> string list) \<times> string list" where
  "try_backend a msg =
     (case a of
        Decoded cn ct \<Rightarrow> ((cn, ct), [])
      | Raised \<Rightarrow> (([], []), [msg])
      | Raised_after_names cn \<Rightarrow> ((cn, []), [msg]))"

text \<open>
  Lines 192 to 224: the backend chain. The mat73 block has no \<open>try\<close>: what it raises
  leaves the reader.
\<close>

definition decode_header ::
  "'v mat_env \<Rightarrow> string \<Rightarrow> (error + (string list \<times> string list)) \<times> string list" where
  "decode_header env path_head =
     (case try_backend (h5py_header env path_head) msg_hdf5 of
        ((cn, ct), lg1) \<Rightarrow>
          (case (if cn = [] \<and> ct = []
                 then (case try_backend (scipy_header env path_head) msg_scipy of
                         (r, lg2) \<Rightarrow> (r, lg1 @ lg2))
                 else ((cn, ct), lg1)) of
             ((cn, ct), lg) \<Rightarrow>
               if cn = [] \<and> ct = []
               then (case mat73_header env path_head of
                       Inl e \<Rightarrow> (Inl e, lg)
                     | Inr r \<Rightarrow> (Inr r, lg))
               else (Inr (cn, ct), lg)))"

text \<open>Lines 227 to 232: the assertions, the upper-case names, the mask and its use.\<close>

definition select_seeg ::
  "string list \<Rightarrow> string list \<Rightarrow> error + (bool list \<times> string list)" where
  "select_seeg cn ct =
     (if cn = [] then Inl AssertionError
      else if ct = [] then Inl AssertionError
      else if length cn \<noteq> length ct then Inl AssertionError
      else
        let ch_names = map upper cn;
            is_seeg = map (\<lambda>t. t = ''SEEG'') ct in
        (case mask_select ch_names is_seeg of
           Inl e \<Rightarrow> Inl e
         | Inr seeg_chan \<Rightarrow> Inr (is_seeg, seeg_chan)))"

text \<open>Lines 192 to 232, the whole CHANNELS part.\<close>

definition channels ::
  "'v mat_env \<Rightarrow> string \<Rightarrow> (error + (bool list \<times> string list)) \<times> string list" where
  "channels env path_head =
     (case decode_header env path_head of
        (Inl e, lg) \<Rightarrow> (Inl e, lg)
      | (Inr (cn, ct), lg) \<Rightarrow> (select_seeg cn ct, lg))"

text \<open>
  \<open>f['raw'][is_seeg, :]\<close>: h5py takes the rows under a boolean mask and refuses a mask
  that is not as long as the matrix has rows.
\<close>

definition h5_mask_rows :: "'v list list \<Rightarrow> bool list \<Rightarrow> error + 'v list list" where
  "h5_mask_rows rows msk =
     (if length msk \<noteq> length rows then Inl TypeError
      else Inr (map fst (filter snd (zip rows msk))))"

text \<open>Lines 238 to 255: the TRIGGER part on the opened raw file.\<close>

definition load_raw ::
  "'v mat_env \<Rightarrow> string \<Rightarrow> bool list \<Rightarrow> string list \<Rightarrow> error + 'v recording" where
  "load_raw env path_raw is_seeg seeg_chan =
     (case h5py_File env path_raw of
        Inl e \<Rightarrow> Inl e
      | Inr f \<Rightarrow>
          (case h5_srate f of
             None \<Rightarrow> Inl KeyError
           | Some [] \<Rightarrow> Inl IndexError
           | Some ([] # _) \<Rightarrow> Inl IndexError
           | Some ((s # _) # _) \<Rightarrow>
               (case h5_time f of
                  None \<Rightarrow> Inl KeyError
                | Some tv \<Rightarrow>
                    (case h5_raw f of
                       None \<Rightarrow> Inl KeyError
                     | Some rows \<Rightarrow>
                         if rows = [] then Inl IndexError
                         else
                           (case extract_events
                                   (squeeze (map (round_int env) (last rows)))
                                   (squeeze tv) of
                              Inl e \<Rightarrow> Inl e
                            | Inr (trig_event, trig_time) \<Rightarrow>
                                (case h5_mask_rows rows is_seeg of
                                   Inl e \<Rightarrow> Inl e
                                 | Inr rw \<Rightarrow>
                                     Inr \<lparr>rec_sf = s,
                                          rec_raw = rw,
                                          rec_seeg_chan = seeg_chan,
                                          rec_trig_event = trig_event,
                                          rec_trig_time = trig_time\<rparr>))))))"

text \<open>Lines 188 to 255: everything after the paths are built.\<close>

definition read_paths ::
  "'v mat_env \<Rightarrow> string \<Rightarrow> string \<Rightarrow> (error + 'v recording) \<times> string list" where
  "read_paths env path_head path_raw =
     (case channels env path_head of
        (Inl e, lg) \<Rightarrow> (Inl e, lg)
      | (Inr (is_seeg, seeg_chan), lg) \<Rightarrow> (load_raw env path_raw is_seeg seeg_chan, lg))"

definition read_pramat ::
  "'v mat_env \<Rightarrow> string \<Rightarrow> (error + 'v recording) \<times> string list" where
  "read_pramat env mat_root =
     (if \<not> isdir env mat_root then (Inl AssertionError, [])
      else
        (case build_path env mat_root of
           (Inl e, lg) \<Rightarrow> (Inl e, lg)
         | (Inr (path_head, path_raw), lg) \<Rightarrow>
             (case read_paths env path_head path_raw of
                (r, lg2) \<Rightarrow> (r, lg @ lg2))))"

section \<open>The trigger extraction as the specification words it\<close>

text \<open>
  The positions that the specification keeps: never position 0, only positions whose
  value differs from the previous sample, and of these only the ones whose code is not
  zero; in the original order.
\<close>

definition spec_kept_positions :: "64 word list \<Rightarrow> nat list" where
  "spec_kept_positions ev =
     filter (\<lambda>i. ev ! i \<noteq> ev ! (i - 1) \<and> ev ! i \<noteq> 0) [1..<length ev]"

section \<open>Well-formed events and positions under a mask\<close>

text \<open>
  neo builds the labels and the times of a Micromed event stream from one array of
  trigger records, one label and one time for each record.
\<close>

definition neo_event_ok :: "'v event \<Rightarrow> bool" where
  "neo_event_ok ev = (length (ev_labels ev) = length (ev_times ev))"

text \<open>
  The positions at which a membership mask is true, in increasing order, and the
  positions at which a type label is exactly the sentinel \<open>SEEG\<close>.
\<close>

definition true_positions :: "bool list \<Rightarrow> nat list" where
  "true_positions msk = filter (\<lambda>i. msk ! i) [0..<length msk]"

definition seeg_positions :: "string list \<Rightarrow> nat list" where
  "seeg_positions ct = filter (\<lambda>i. ct ! i = ''SEEG'') [0..<length ct]"

section \<open>An example recording of each kind\<close>

text \<open>
  A small Micromed recording: three channels, two of them in microvolt, and an event
  stream with the labels 0, 5, 5. The classifier of the example keeps the channels whose
  unit is the expected one; the label conversion of the example reads unsigned decimal
  numbers.
\<close>

fun digits_value :: "nat \<Rightarrow> string \<Rightarrow> nat option" where
  "digits_value acc [] = Some acc"
| "digits_value acc (c # cs) =
     (let n = (of_char c :: nat) in
      if 48 \<le> n \<and> n \<le> 57 then digits_value (10 * acc + (n - 48)) cs else None)"

definition demo_astype_int :: "string \<Rightarrow> error + 64 word" where
  "demo_astype_int s =
     (if s = [] then Inl ValueError
      else case digits_value 0 s of None \<Rightarrow> Inl ValueError | Some n \<Rightarrow> Inr (of_nat n))"

definition demo_classifier :: "string list \<Rightarrow> string list \<Rightarrow> string \<Rightarrow> bool list" where
  "demo_classifier names units seeg_unit = map (\<lambda>u. u = seeg_unit) units"

definition demo_signals :: "int analogsignal list" where
  "demo_signals =
     [\<lparr>sig_name = ''eeg 1'', sig_units = ''uV'', sig_sampling_rate = 512, sig_samples = [1, 2]\<rparr>,
      \<lparr>sig_name = ''Eeg2 '', sig_units = ''uV'', sig_sampling_rate = 512, sig_samples = [3, 4]\<rparr>,
      \<lparr>sig_name = ''ECG'', sig_units = ''mV'', sig_sampling_rate = 512, sig_samples = [5, 6]\<rparr>]"

definition demo_event :: "int event" where
  "demo_event = \<lparr>ev_labels = [''0'', ''5'', ''5''], ev_times = [10, 20, 30]\<rparr>"

definition demo_segment :: "int segment" where
  "demo_segment = \<lparr>seg_analogsignals = demo_signals, seg_events = [demo_event]\<rparr>"

definition demo_trc_env :: "int trc_env" where
  "demo_trc_env =
     \<lparr>isfile = (\<lambda>p. p = ''rec.TRC''),
      micromed_read = (\<lambda>p. if p = ''rec.TRC'' then Inr demo_segment else Inl FileNotFoundError),
      detect_seeg_contacts = demo_classifier,
      astype_int = demo_astype_int\<rparr>"

text \<open>
  A small matrix recording under \<open>/data\<close>: the header file \<open>H.mat\<close> with three
  channels, and a raw file of nine samples whose last row is the trigger line. The
  listing of the raw directory and the outcome of each header backend are left open.
\<close>

definition demo_h5 :: "int h5file" where
  "demo_h5 =
     \<lparr>h5_srate = Some [[512]],
      h5_time = Some [0, 1, 2, 3, 4, 5, 6, 7, 8],
      h5_raw = Some [[11, 12, 13, 14, 15, 16, 17, 18, 19],
                     [21, 22, 23, 24, 25, 26, 27, 28, 29],
                     [0, 0, 5, 5, 0, 0, 3, 3, 3]]\<rparr>"

definition demo_names :: "string list" where "demo_names = [''a1'', ''b1'', ''trig'']"

definition demo_types :: "string list" where "demo_types = [''SEEG'', ''SEEG'', ''TRIG'']"

definition demo_mat_env ::
  "string list \<Rightarrow> attempt \<Rightarrow> attempt \<Rightarrow> error + (string list \<times> string list) \<Rightarrow> int mat_env" where
  "demo_mat_env files_raw h s m =
     \<lparr>isdir = (\<lambda>p. p = ''/data''),
      listdir = (\<lambda>p. if p = ''/data/alignedData'' then Inr [''H.mat'']
                     else if p = ''/data/rawData/amplifierData'' then Inr files_raw
                     else Inl FileNotFoundError),
      h5py_header = (\<lambda>p. if p = ''/data/alignedData/H.mat'' then h else Raised),
      scipy_header = (\<lambda>p. if p = ''/data/alignedData/H.mat'' then s else Raised),
      mat73_header = (\<lambda>p. if p = ''/data/alignedData/H.mat'' then m else Inl FileNotFoundError),
      h5py_File = (\<lambda>p. if p \<in> set (map (join ''/data/rawData/amplifierData'') files_raw)
                       then Inr demo_h5 else Inl FileNotFoundError),
      round_int = word_of_int\<rparr>"

text \<open>
  The same recording with a raw file of a single sample: the trigger line is \<open>[7]\<close>.
\<close>

definition demo_h5_one :: "int h5file" where
  "demo_h5_one =
     \<lparr>h5_srate = Some [[512]], h5_time = Some [0], h5_raw = Some [[11], [21], [7]]\<rparr>"

definition demo_one_sample_env :: "int mat_env" where
  "demo_one_sample_env =
     (demo_mat_env [''iEEG.mat''] (Decoded demo_names demo_types) Raised (Inl DecodeError))
       \<lparr>h5py_File := (\<lambda>p. if p = ''/data/rawData/amplifierData/iEEG.mat''
                              then Inr demo_h5_one else Inl FileNotFoundError)\<rparr>"

section \<open>Properties of the trigger extraction\<close>

lemma where_nz_diff:
  "where_nz (map2 (-) (tl ev) (butlast ev)) =
     filter (\<lambda>i. ev ! Suc i \<noteq> ev ! i) [0..<length ev - 1]"
  unfolding where_nz_def
  by (rule filter_cong) (auto simp: nth_tl nth_butlast)

lemma first_only_eq:
  "first_only ev = filter (\<lambda>i. ev ! i \<noteq> ev ! (i - 1)) [1..<length ev]"
proof -
  have "first_only ev = map Suc (filter (\<lambda>i. ev ! Suc i \<noteq> ev ! i) [0..<length ev - 1])"
    by (simp add: first_only_def where_nz_diff)
  also have "\<dots> = filter (\<lambda>i. ev ! i \<noteq> ev ! (i - 1)) (map Suc [0..<length ev - 1])"
    by (simp add: filter_map comp_def)
  also have "map Suc [0..<length ev - 1] = [1..<length ev]"
    by (cases ev) (simp_all add: map_Suc_upt)
  finally show ?thesis .
qed

lemma first_only_in_range: "list_all (\<lambda>i. i < length ev) (first_only ev)"
  by (simp add: first_only_eq list_all_iff)

lemma mask_select_map:
  "mask_select (map f idx) (map g idx) = Inr (map f (filter g idx))"
  unfolding mask_select_def by (induction idx) simp_all

lemma extract_events_leading_edges:
  assumes "length ev \<le> length ts"
  shows "extract_events (Arr1 ev) (Arr1 ts) =
           Inr (map (\<lambda>i. ev ! i) (filter (\<lambda>i. ev ! i \<noteq> 0) (first_only ev)),
                map (\<lambda>i. ts ! i) (filter (\<lambda>i. ev ! i \<noteq> 0) (first_only ev)))"
proof -
  have r: "list_all (\<lambda>i. i < length ts) (first_only ev)"
    using first_only_in_range [of ev] assms by (auto simp: list_all_iff)
  have m: "map (\<lambda>c. c \<noteq> 0) (map (\<lambda>i. ev ! i) (first_only ev)) =
           map (\<lambda>i. ev ! i \<noteq> 0) (first_only ev)"
    by simp
  show ?thesis
    unfolding extract_events_def
    by (simp add: take_idx_def first_only_in_range r Let_def m mask_select_map
        del: map_map)
qed

lemma extract_events_spec_positions:
  "length ev \<le> length ts \<Longrightarrow>
   extract_events (Arr1 ev) (Arr1 ts) =
     Inr (map (\<lambda>i. ev ! i) (spec_kept_positions ev),
          map (\<lambda>i. ts ! i) (spec_kept_positions ev))"
  by (simp add: extract_events_leading_edges first_only_eq spec_kept_positions_def
      conj_commute)

lemma first_only_replicate: "first_only (replicate n c) = []"
  by (auto simp: first_only_eq filter_empty_conv)

lemma extract_events_constant:
  "extract_events (Arr1 (replicate n c)) (Arr1 ts) = Inr ([], [])"
  by (simp add: extract_events_def first_only_replicate take_idx_def mask_select_def)

lemma extract_events_demo:
  "extract_events (Arr1 [0, 0, 5, 5, 0, 0, 3, 3, 3]) (Arr1 [0, 1, 2, 3, 4, 5, 6, 7, 8 :: int])
     = Inr ([5, 3], [2, 6])"
  by (simp add: extract_events_def first_only_def where_nz_def take_idx_def
      mask_select_def upt_rec)

section \<open>Properties of masks and conversions\<close>

lemma mask_select_positions:
  "length msk = length xs \<Longrightarrow>
   map fst (filter snd (zip xs msk)) = map (\<lambda>i. xs ! i) (filter (\<lambda>i. msk ! i) [0..<length xs])"
proof (induction xs arbitrary: msk rule: rev_induct)
  case Nil
  then show ?case by simp
next
  case (snoc y ys)
  then obtain ms m where msk: "msk = ms @ [m]"
    by (cases msk rule: rev_cases) auto
  with snoc.prems have len: "length ms = length ys" by simp
  have f: "filter (\<lambda>i. (ms @ [m]) ! i) [0..<length ys] = filter (\<lambda>i. ms ! i) [0..<length ys]"
    by (rule filter_cong) (auto simp: nth_append len)
  have g: "map (\<lambda>i. (ys @ [y]) ! i) (filter (\<lambda>i. ms ! i) [0..<length ys]) =
           map (\<lambda>i. ys ! i) (filter (\<lambda>i. ms ! i) [0..<length ys])"
    by (rule map_cong) (auto simp: nth_append)
  have l: "map fst (filter snd (zip (ys @ [y]) (ms @ [m]))) =
           map fst (filter snd (zip ys ms)) @ (if m then [y] else [])"
    using len by simp
  have "(ms @ [m]) ! length ys = m"
    using nth_append_length [of ms m] by (simp only: len)
  then have r: "map (\<lambda>i. (ys @ [y]) ! i) (filter (\<lambda>i. (ms @ [m]) ! i) [0..<length (ys @ [y])]) =
           map (\<lambda>i. (ys @ [y]) ! i) (filter (\<lambda>i. (ms @ [m]) ! i) [0..<length ys])
             @ (if m then [y] else [])"
    by simp
  show ?case
    unfolding msk l r f g using snoc.IH [OF len] by simp
qed

lemma mask_select_length:
  "length msk = length xs \<Longrightarrow>
   length (map fst (filter snd (zip xs msk))) = length (filter (\<lambda>b. b) msk)"
proof (induction xs arbitrary: msk)
  case Nil
  then show ?case by simp
next
  case (Cons x xs)
  then show ?case by (cases msk) auto
qed

lemma filter_snd_zip_length:
  "length msk = length xs \<Longrightarrow>
   length (filter snd (zip xs msk)) = length (filter (\<lambda>b. b) msk)"
  using mask_select_length [of msk xs] by simp


lemma mask_select_eq:
  "length msk = length xs \<Longrightarrow> mask_select xs msk = Inr (map (\<lambda>i. xs ! i) (true_positions msk))"
  by (simp add: mask_select_def mask_select_positions true_positions_def)

lemma true_positions_bound: "i \<in> set (true_positions msk) \<Longrightarrow> i < length msk"
  by (simp add: true_positions_def)

lemma mask_select_upt:
  "length msk = n \<Longrightarrow> mask_select [0..<n] msk = Inr (true_positions msk)"
proof -
  assume l: "length msk = n"
  have "map (\<lambda>i. [0..<n] ! i) (true_positions msk) = map (\<lambda>i. i) (true_positions msk)"
    by (rule map_cong) (use l true_positions_bound in auto)
  then show ?thesis using l by (simp add: mask_select_eq)
qed

lemma true_positions_map:
  "true_positions (map P xs) = filter (\<lambda>i. P (xs ! i)) [0..<length xs]"
  unfolding true_positions_def by (rule filter_cong) auto

lemma astype_all_map: "astype_all conv ls = Inr cs \<Longrightarrow> map conv ls = map Inr cs"
  by (induction ls arbitrary: cs) (auto split: sum.splits)

lemma astype_all_length: "astype_all conv ls = Inr cs \<Longrightarrow> length cs = length ls"
  using astype_all_map [of conv ls cs] by (metis length_map)

lemma extract_events_lengths:
  "extract_events a b = Inr (e, t) \<Longrightarrow> length e = length t"
  unfolding extract_events_def Let_def
  by (auto simp: take_idx_def mask_select_def filter_snd_zip_length
      split: ndarray.splits sum.splits if_splits)

text \<open>
  A trigger line of one sample is squeezed to a zero-dimensional array, which line 245
  cannot slice.
\<close>

lemma extract_events_squeezed_single:
  "extract_events (squeeze [c]) tms = Inl IndexError"
  by (simp add: extract_events_def squeeze_def)

lemma squeeze_replicate:
  "n \<noteq> 1 \<Longrightarrow> squeeze (replicate n c) = Arr1 (replicate n c)"
  by (cases n; cases "n - 1") (simp_all add: squeeze_def)

lemma squeeze_not_single:
  "length ts \<noteq> 1 \<Longrightarrow> squeeze ts = Arr1 ts"
  by (cases ts; cases "tl ts") (simp_all add: squeeze_def)

lemma extract_events_constant_squeezed:
  "n \<noteq> 1 \<Longrightarrow> length ts \<noteq> 1 \<Longrightarrow>
   extract_events (squeeze (replicate n c)) (squeeze ts) = Inr ([], [])"
  by (simp add: squeeze_replicate squeeze_not_single extract_events_constant)

section \<open>Properties of \<open>read_trc\<close>\<close>

lemma select_channels_unfold:
  assumes l: "length msk = length names"
  shows "select_channels names msk sigs =
           (case take_idx sigs (true_positions msk) of
              Inl e \<Rightarrow> Inl e
            | Inr sel \<Rightarrow>
                (case np_stack (map sig_samples sel) of
                   Inl e \<Rightarrow> Inl e
                 | Inr rw \<Rightarrow> Inr (map (\<lambda>i. names ! i) (true_positions msk), rw)))"
proof -
  have a: "mask_select names msk = Inr (map (\<lambda>i. names ! i) (true_positions msk))"
    using l by (rule mask_select_eq)
  have b: "mask_select [0..<length names] msk = Inr (true_positions msk)"
    using l by (rule mask_select_upt)
  show ?thesis
    unfolding select_channels_def by (simp only: a b sum.case)
qed

lemma select_channels_Inr:
  assumes "select_channels names msk sigs = Inr (chan, rw)"
  shows "length msk = length names"
    and "chan = map (\<lambda>i. names ! i) (true_positions msk)"
    and "rw = map (\<lambda>i. sig_samples (sigs ! i)) (true_positions msk)"
    and "rw \<noteq> []"
proof -
  show l: "length msk = length names"
    using assms by (auto simp: select_channels_def mask_select_def split: if_splits)
  from assms show "chan = map (\<lambda>i. names ! i) (true_positions msk)"
    unfolding select_channels_unfold [OF l] by (auto split: sum.splits)
  from assms show "rw = map (\<lambda>i. sig_samples (sigs ! i)) (true_positions msk)"
    unfolding select_channels_unfold [OF l]
    by (auto simp: take_idx_def np_stack_def split: sum.splits if_splits)
  from assms show "rw \<noteq> []"
    unfolding select_channels_unfold [OF l]
    by (auto simp: take_idx_def np_stack_def split: sum.splits if_splits)
qed


lemma read_trc_Inr:
  fixes env :: "'v trc_env"
  assumes "read_trc env bloc = Inr r"
  shows "\<exists>seg s0 rest ev evs.
           isfile env bloc \<and> micromed_read env bloc = Inr seg
         \<and> seg_analogsignals seg = s0 # rest \<and> seg_events seg = ev # evs
         \<and> astype_all (astype_int env) (ev_labels ev) = Inr (rec_trig_event r)
         \<and> rec_trig_time r = ev_times ev
         \<and> rec_sf r = sig_sampling_rate s0
         \<and> (\<exists>names msk. select_channels names msk (seg_analogsignals seg)
                           = Inr (rec_seeg_chan r, rec_raw r))"
proof (cases "isfile env bloc")
  case False
  with assms show ?thesis by (simp add: read_trc_def)
next
  case True
  note f = this
  show ?thesis
  proof (cases "micromed_read env bloc")
    case (Inl e)
    with assms f show ?thesis by (simp add: read_trc_def)
  next
    case (Inr seg)
    note sg = this
    show ?thesis
    proof (cases "seg_analogsignals seg")
      case Nil
      with assms f sg show ?thesis by (simp add: read_trc_def)
    next
      case (Cons s0 rest)
      note an = this
      show ?thesis
      proof (cases "seg_events seg")
        case Nil
        with assms f sg an show ?thesis
          by (auto simp: read_trc_def read_contacts_trc_def Let_def split: sum.splits)
      next
        case (Cons ev evs)
        with assms f sg an show ?thesis
          unfolding read_trc_def read_contacts_trc_def Let_def
          apply (auto split: sum.splits prod.splits)
          apply blast
          done
      qed
    qed
  qed
qed

lemma read_trc_lengths:
  fixes env :: "'v trc_env"
  assumes "read_trc env bloc = Inr r"
  shows "length (rec_raw r) = length (rec_seeg_chan r)"
proof -
  from read_trc_Inr [OF assms] obtain seg :: "'v segment" and names msk where
    "select_channels names msk (seg_analogsignals seg) = Inr (rec_seeg_chan r, rec_raw r)"
    by blast
  from select_channels_Inr(2,3) [OF this] show ?thesis by simp
qed

lemma read_trc_events:
  fixes env :: "'v trc_env"
  assumes "read_trc env bloc = Inr r"
    and "\<forall>seg. micromed_read env bloc = Inr seg \<longrightarrow> list_all neo_event_ok (seg_events seg)"
  shows "length (rec_trig_event r) = length (rec_trig_time r)"
proof -
  from read_trc_Inr [OF assms(1)] obtain seg :: "'v segment" and ev evs where
    a: "micromed_read env bloc = Inr seg" "seg_events seg = ev # evs"
      "astype_all (astype_int env) (ev_labels ev) = Inr (rec_trig_event r)"
      "rec_trig_time r = ev_times ev"
    by blast
  with assms(2) have "neo_event_ok ev" by auto
  with a astype_all_length [OF a(3)] show ?thesis by (simp add: neo_event_ok_def)
qed

lemma read_trc_not_file: "\<not> isfile env bloc \<Longrightarrow> read_trc env bloc = Inl AssertionError"
  by (simp add: read_trc_def)

section \<open>Properties of \<open>read_pramat\<close>\<close>

lemma select_seeg_Inr:
  assumes "select_seeg cn ct = Inr (m, chan)"
  shows "cn \<noteq> []" "ct \<noteq> []" "length cn = length ct"
    "m = map (\<lambda>t. t = ''SEEG'') ct"
    "chan = map (\<lambda>i. upper (cn ! i)) (seeg_positions ct)"
proof -
  from assms show a: "cn \<noteq> []" "ct \<noteq> []" "length cn = length ct"
    by (auto simp: select_seeg_def split: if_splits)
  from assms a show m: "m = map (\<lambda>t. t = ''SEEG'') ct"
    by (auto simp: select_seeg_def Let_def split: if_splits sum.splits)
  have p: "\<forall>i \<in> set (seeg_positions ct). i < length cn"
    using a by (simp add: seeg_positions_def)
  have "mask_select (map upper cn) (map (\<lambda>t. t = ''SEEG'') ct)
          = Inr (map (\<lambda>i. map upper cn ! i) (seeg_positions ct))"
    using a by (simp add: mask_select_eq true_positions_map seeg_positions_def)
  also have "map (\<lambda>i. map upper cn ! i) (seeg_positions ct) = map (\<lambda>i. upper (cn ! i)) (seeg_positions ct)"
    by (rule map_cong) (use p in auto)
  finally show "chan = map (\<lambda>i. upper (cn ! i)) (seeg_positions ct)"
    using assms a by (simp add: select_seeg_def Let_def)
qed

lemma h5_mask_rows_Inr:
  assumes "h5_mask_rows rows msk = Inr rw"
  shows "length msk = length rows" "rw = map (\<lambda>i. rows ! i) (true_positions msk)"
  using assms
  by (auto simp: h5_mask_rows_def mask_select_positions true_positions_def split: if_splits)

lemma load_raw_Inr:
  fixes env :: "'v mat_env"
  assumes "load_raw env path_raw is_seeg seeg_chan = Inr r"
  shows "\<exists>f rows tv.
           h5py_File env path_raw = Inr f \<and> h5_raw f = Some rows \<and> h5_time f = Some tv
         \<and> rows \<noteq> []
         \<and> extract_events (squeeze (map (round_int env) (last rows))) (squeeze tv)
             = Inr (rec_trig_event r, rec_trig_time r)
         \<and> h5_mask_rows rows is_seeg = Inr (rec_raw r)
         \<and> rec_seeg_chan r = seeg_chan"
  using assms unfolding load_raw_def
  by (auto split: sum.splits option.splits list.splits if_splits prod.splits)

lemma read_paths_Inr:
  fixes env :: "'v mat_env"
  assumes "fst (read_paths env path_head path_raw) = Inr r"
  shows "\<exists>cn ct lg m chan.
           decode_header env path_head = (Inr (cn, ct), lg)
         \<and> select_seeg cn ct = Inr (m, chan)
         \<and> load_raw env path_raw m chan = Inr r"
  using assms unfolding read_paths_def channels_def
  by (auto split: sum.splits prod.splits)

lemma read_pramat_Inr:
  fixes env :: "'v mat_env"
  assumes "fst (read_pramat env mat_root) = Inr r"
  shows "\<exists>path_head path_raw lg.
           isdir env mat_root
         \<and> build_path env mat_root = (Inr (path_head, path_raw), lg)
         \<and> fst (read_paths env path_head path_raw) = Inr r"
  using assms unfolding read_pramat_def
  by (auto split: sum.splits prod.splits if_splits)

lemma read_pramat_lengths:
  fixes env :: "'v mat_env"
  assumes "fst (read_pramat env mat_root) = Inr r"
  shows "length (rec_raw r) = length (rec_seeg_chan r)"
    and "length (rec_trig_event r) = length (rec_trig_time r)"
proof -
  from read_pramat_Inr [OF assms] obtain path_head path_raw where
    "fst (read_paths env path_head path_raw) = Inr r" by blast
  from read_paths_Inr [OF this] obtain cn ct m chan where
    s: "select_seeg cn ct = Inr (m, chan)" and l: "load_raw env path_raw m chan = Inr r"
    by blast
  from load_raw_Inr [OF l] obtain rows :: "'v list list" and tv :: "'v list" where
    e: "extract_events (squeeze (map (round_int env) (last rows))) (squeeze tv)
             = Inr (rec_trig_event r, rec_trig_time r)"
    and h: "h5_mask_rows rows m = Inr (rec_raw r)" and c: "rec_seeg_chan r = chan"
    by blast
  from extract_events_lengths [OF e]
  show "length (rec_trig_event r) = length (rec_trig_time r)" .
  from select_seeg_Inr(4,5) [OF s] h5_mask_rows_Inr(2) [OF h] c
  show "length (rec_raw r) = length (rec_seeg_chan r)"
    by (simp add: true_positions_map seeg_positions_def)
qed

lemma build_path_many:
  assumes "listdir env (join mat_root ''alignedData'') = Inr [h]"
    and "listdir env (join (join mat_root ''rawData'') ''amplifierData'') = Inr files"
    and "1 < length files"
  shows "build_path env mat_root =
           (Inr (join (join mat_root ''alignedData'') h,
                 join (join (join mat_root ''rawData'') ''amplifierData'') ''iEEG.mat''),
            [msg_multiple])"
  using assms by (simp add: build_path_def Let_def)

lemma build_path_one:
  assumes "listdir env (join mat_root ''alignedData'') = Inr [h]"
    and "listdir env (join (join mat_root ''rawData'') ''amplifierData'') = Inr [f]"
  shows "build_path env mat_root =
           (Inr (join (join mat_root ''alignedData'') h,
                 join (join (join mat_root ''rawData'') ''amplifierData'') f),
            [])"
  using assms by (simp add: build_path_def Let_def)


lemma read_pramat_paths:
  assumes "isdir env mat_root" and "build_path env mat_root = (Inr (path_head, path_raw), lg)"
  shows "read_pramat env mat_root =
           (fst (read_paths env path_head path_raw), lg @ snd (read_paths env path_head path_raw))"
  using assms by (simp add: read_pramat_def split: prod.splits)


lemma read_pramat_not_dir:
  "\<not> isdir env mat_root \<Longrightarrow> read_pramat env mat_root = (Inl AssertionError, [])"
  by (simp add: read_pramat_def)

lemma read_paths_open_error:
  assumes "channels env path_head = (Inr (is_seeg, seeg_chan), lg)"
    and "h5py_File env path_raw = Inl e"
  shows "read_paths env path_head path_raw = (Inl e, lg)"
  using assms by (simp add: read_paths_def load_raw_def)

lemma decode_header_h5:
  assumes "h5py_header env p = Decoded cn ct" and "cn \<noteq> [] \<or> ct \<noteq> []"
  shows "decode_header env p = (Inr (cn, ct), [])"
  using assms by (auto simp: decode_header_def try_backend_def)

lemma decode_header_scipy:
  assumes "h5py_header env p = Raised \<or> h5py_header env p = Decoded [] []"
    and "scipy_header env p = Decoded cn ct" and "cn \<noteq> [] \<or> ct \<noteq> []"
  shows "decode_header env p = (Inr (cn, ct), snd (try_backend (h5py_header env p) msg_hdf5))"
  using assms by (auto simp: decode_header_def try_backend_def)

lemma decode_header_mat73:
  assumes "h5py_header env p = Raised \<or> h5py_header env p = Decoded [] []"
    and "scipy_header env p = Raised \<or> scipy_header env p = Decoded [] []"
  shows "decode_header env p =
           (mat73_header env p,
            snd (try_backend (h5py_header env p) msg_hdf5)
              @ snd (try_backend (scipy_header env p) msg_scipy))"
  using assms by (auto simp: decode_header_def try_backend_def split: sum.splits)

lemma channels_error:
  "decode_header env p = (Inl e, lg) \<Longrightarrow> channels env p = (Inl e, lg)"
  by (simp add: channels_def)

lemma channels_assert:
  assumes "decode_header env p = (Inr (cn, ct), lg)"
    and "cn = [] \<or> ct = [] \<or> length cn \<noteq> length ct"
  shows "channels env p = (Inl AssertionError, lg)"
  using assms by (auto simp: channels_def select_seeg_def)

section \<open>The example recordings, evaluated\<close>

lemma demo_read_contacts: "read_contacts_trc demo_trc_env ''rec.TRC'' = Inr ([''EEG1'', ''EEG2'', ''ECG''], [''uV'', ''uV'', ''mV''])"
  by (simp add: read_contacts_trc_def demo_trc_env_def demo_segment_def demo_signals_def
      upper_def upper_char_def strip_def remove_spaces_def is_space_def)

lemma demo_labels: "astype_all demo_astype_int [''0'', ''5'', ''5''] = Inr [0, 5, 5]"
  by (simp add: demo_astype_int_def)

lemma demo_select:
  "select_channels [''EEG1'', ''EEG2'', ''ECG''] [True, True, False] demo_signals
     = Inr ([''EEG1'', ''EEG2''], [[1, 2], [3, 4]])"
  by (simp add: select_channels_def mask_select_def take_idx_def np_stack_def demo_signals_def)

lemma read_trc_demo:
  "read_trc demo_trc_env ''rec.TRC'' =
     Inr \<lparr>rec_sf = 512, rec_raw = [[1, 2], [3, 4]], rec_seeg_chan = [''EEG1'', ''EEG2''],
          rec_trig_event = [0, 5, 5], rec_trig_time = [10, 20, 30]\<rparr>"
proof -
  have a: "isfile demo_trc_env ''rec.TRC''" 
    and b: "micromed_read demo_trc_env ''rec.TRC'' = Inr demo_segment"
    and c: "detect_seeg_contacts demo_trc_env [''EEG1'', ''EEG2'', ''ECG''] [''uV'', ''uV'', ''mV''] ''uV'' = [True, True, False]"
    and d: "astype_int demo_trc_env = demo_astype_int"
    by (simp_all add: demo_trc_env_def demo_classifier_def)
  have e: "seg_analogsignals demo_segment = demo_signals"
    "seg_events demo_segment = [demo_event]"
    "ev_labels demo_event = [''0'', ''5'', ''5'']" "ev_times demo_event = [10, 20, 30]"
    by (simp_all add: demo_segment_def demo_event_def)
  have f: "mask_select [''EEG1'', ''EEG2'', ''ECG''] [True, True, False] = Inr [''EEG1'', ''EEG2'']"
    by (simp add: mask_select_def)
  have g: "demo_signals = hd demo_signals # tl demo_signals" "sig_sampling_rate (hd demo_signals) = 512"
    by (simp_all add: demo_signals_def)
  show ?thesis
    unfolding read_trc_def
    apply (simp only: a b c d e f demo_read_contacts demo_labels demo_select Let_def
        sum.case prod.case list.case if_True if_False not_True_eq_False simp_thms)
    apply (subst g(1))
    apply (simp only: list.case e demo_labels sum.case g(2))
    done
qed

lemma demo_env_fields:
  "isdir (demo_mat_env fr h s m) p = (p = ''/data'')"
  "listdir (demo_mat_env fr h s m) ''/data/alignedData'' = Inr [''H.mat'']"
  "listdir (demo_mat_env fr h s m) ''/data/rawData/amplifierData'' = Inr fr"
  "h5py_header (demo_mat_env fr h s m) ''/data/alignedData/H.mat'' = h"
  "scipy_header (demo_mat_env fr h s m) ''/data/alignedData/H.mat'' = s"
  "mat73_header (demo_mat_env fr h s m) ''/data/alignedData/H.mat'' = m"
  "round_int (demo_mat_env fr h s m) = word_of_int"
  by (simp_all add: demo_mat_env_def)

lemma demo_paths:
  "join ''/data'' ''alignedData'' = ''/data/alignedData''"
  "join (join ''/data'' ''rawData'') ''amplifierData'' = ''/data/rawData/amplifierData''"
  "join ''/data/alignedData'' ''H.mat'' = ''/data/alignedData/H.mat''"
  "join ''/data/rawData/amplifierData'' ''iEEG.mat'' = ''/data/rawData/amplifierData/iEEG.mat''"
  by (simp_all add: join_def)

lemma demo_open_present:
  "h5py_File (demo_mat_env [''a.mat'', ''iEEG.mat''] h s m) ''/data/rawData/amplifierData/iEEG.mat''
     = Inr demo_h5"
  by (simp add: demo_mat_env_def join_def)

lemma demo_open_absent:
  "h5py_File (demo_mat_env [''a.mat'', ''b.mat''] h s m) ''/data/rawData/amplifierData/iEEG.mat''
     = Inl FileNotFoundError"
  by (simp add: demo_mat_env_def join_def)

lemma demo_load_raw:
  assumes "h5py_File env p = Inr demo_h5" and "round_int env = word_of_int"
  shows "load_raw env p [True, True, False] chan =
     Inr \<lparr>rec_sf = 512,
          rec_raw = [[11, 12, 13, 14, 15, 16, 17, 18, 19], [21, 22, 23, 24, 25, 26, 27, 28, 29]],
          rec_seeg_chan = chan, rec_trig_event = [5, 3], rec_trig_time = [2, 6]\<rparr>"
proof -
  have a: "squeeze [0, 0, 5, 5, 0, 0, 3, 3, 3 :: 64 word] = Arr1 [0, 0, 5, 5, 0, 0, 3, 3, 3]"
    by (simp add: squeeze_def)
  have b: "squeeze [0, 1, 2, 3, 4, 5, 6, 7, 8 :: int] = Arr1 [0, 1, 2, 3, 4, 5, 6, 7, 8]"
    by (simp add: squeeze_def)
  show ?thesis
    unfolding load_raw_def
    by (simp add: assms demo_h5_def a b extract_events_demo h5_mask_rows_def)
qed

lemma demo_channels:
  "channels (demo_mat_env fr (Decoded demo_names demo_types) s m) ''/data/alignedData/H.mat''
     = (Inr ([True, True, False], [''A1'', ''B1'']), [])"
proof -
  have "decode_header (demo_mat_env fr (Decoded demo_names demo_types) s m)
          ''/data/alignedData/H.mat'' = (Inr (demo_names, demo_types), [])"
    by (rule decode_header_h5) (simp_all add: demo_env_fields demo_names_def)
  then show ?thesis
    by (simp add: channels_def select_seeg_def mask_select_def demo_names_def demo_types_def
        upper_def upper_char_def)
qed

lemma demo_read_paths:
  "read_paths (demo_mat_env [''a.mat'', ''iEEG.mat''] (Decoded demo_names demo_types) s m)
      ''/data/alignedData/H.mat'' ''/data/rawData/amplifierData/iEEG.mat''
   = (Inr \<lparr>rec_sf = 512,
          rec_raw = [[11, 12, 13, 14, 15, 16, 17, 18, 19], [21, 22, 23, 24, 25, 26, 27, 28, 29]],
          rec_seeg_chan = [''A1'', ''B1''], rec_trig_event = [5, 3], rec_trig_time = [2, 6]\<rparr>, [])"
  unfolding read_paths_def
  by (simp add: demo_channels demo_load_raw [OF demo_open_present demo_env_fields(7)])

lemma demo_read_pramat:
  "read_pramat (demo_mat_env [''a.mat'', ''iEEG.mat''] (Decoded demo_names demo_types) s m) ''/data''
   = (Inr \<lparr>rec_sf = 512,
          rec_raw = [[11, 12, 13, 14, 15, 16, 17, 18, 19], [21, 22, 23, 24, 25, 26, 27, 28, 29]],
          rec_seeg_chan = [''A1'', ''B1''], rec_trig_event = [5, 3], rec_trig_time = [2, 6]\<rparr>,
      [msg_multiple])"
proof -
  let ?env = "demo_mat_env [''a.mat'', ''iEEG.mat''] (Decoded demo_names demo_types) s m"
  have bp: "build_path ?env ''/data'' =
      (Inr (''/data/alignedData/H.mat'', ''/data/rawData/amplifierData/iEEG.mat''), [msg_multiple])"
    using build_path_many [of ?env "''/data''" "''H.mat''" "[''a.mat'', ''iEEG.mat'']"]
    by (simp add: demo_paths demo_env_fields)
  have d: "isdir ?env ''/data''" by (simp add: demo_env_fields)
  show ?thesis
    unfolding read_pramat_paths [OF d bp] by (simp add: demo_read_paths)
qed

lemma demo_one_sample_fields:
  "isdir demo_one_sample_env ''/data''"
  "listdir demo_one_sample_env ''/data/alignedData'' = Inr [''H.mat'']"
  "listdir demo_one_sample_env ''/data/rawData/amplifierData'' = Inr [''iEEG.mat'']"
  "h5py_header demo_one_sample_env ''/data/alignedData/H.mat'' = Decoded demo_names demo_types"
  "h5py_File demo_one_sample_env ''/data/rawData/amplifierData/iEEG.mat'' = Inr demo_h5_one"
  "round_int demo_one_sample_env = word_of_int"
  by (simp_all add: demo_one_sample_env_def demo_mat_env_def)

lemma demo_one_sample_channels:
  "channels demo_one_sample_env ''/data/alignedData/H.mat''
     = (Inr ([True, True, False], [''A1'', ''B1'']), [])"
proof -
  have "decode_header demo_one_sample_env ''/data/alignedData/H.mat''
          = (Inr (demo_names, demo_types), [])"
    by (rule decode_header_h5) (simp_all add: demo_one_sample_fields demo_names_def)
  then show ?thesis
    by (simp add: channels_def select_seeg_def mask_select_def demo_names_def demo_types_def
        upper_def upper_char_def)
qed

lemma demo_one_sample_load:
  "load_raw demo_one_sample_env ''/data/rawData/amplifierData/iEEG.mat'' is_seeg chan
     = Inl IndexError"
  unfolding load_raw_def
  by (simp add: demo_one_sample_fields demo_h5_one_def extract_events_squeezed_single)

lemma demo_one_sample_read:
  "read_pramat demo_one_sample_env ''/data'' = (Inl IndexError, [])"
proof -
  have bp: "build_path demo_one_sample_env ''/data'' =
      (Inr (''/data/alignedData/H.mat'', ''/data/rawData/amplifierData/iEEG.mat''), [])"
    using build_path_one [of demo_one_sample_env "''/data''" "''H.mat''" "''iEEG.mat''"]
    by (simp add: demo_paths demo_one_sample_fields)
  show ?thesis
    unfolding read_pramat_paths [OF demo_one_sample_fields(1) bp]
    by (simp add: read_paths_def demo_one_sample_channels demo_one_sample_load)
qed

section \<open>The claims\<close>

text \<open>
  Claim C1, as amended. \<open>read_trc\<close> does not run the trigger extraction: whenever it
  returns, the returned events are the labels of the first event stream of the
  container, converted to integers one by one and in order, and the returned times are
  the times of that stream unchanged. No code is dropped and no run is collapsed.
\<close>

theorem read_trc_events_unfiltered:
  fixes env :: "'v trc_env"
  assumes "read_trc env bloc = Inr r"
  shows "\<exists>seg ev evs.
           micromed_read env bloc = Inr seg \<and> seg_events seg = ev # evs
         \<and> map (astype_int env) (ev_labels ev) = map Inr (rec_trig_event r)
         \<and> rec_trig_time r = ev_times ev"
proof -
  from read_trc_Inr [OF assms] obtain seg :: "'v segment" and ev evs where
    a: "micromed_read env bloc = Inr seg" "seg_events seg = ev # evs"
      "astype_all (astype_int env) (ev_labels ev) = Inr (rec_trig_event r)"
      "rec_trig_time r = ev_times ev"
    by blast
  from a astype_all_map [OF a(3)] show ?thesis by blast
qed

theorem read_trc_events_unfiltered_witness:
  "read_trc demo_trc_env ''rec.TRC'' =
     Inr \<lparr>rec_sf = 512, rec_raw = [[1, 2], [3, 4]], rec_seeg_chan = [''EEG1'', ''EEG2''],
          rec_trig_event = [0, 5, 5], rec_trig_time = [10, 20, 30]\<rparr>
   \<and> micromed_read demo_trc_env ''rec.TRC'' = Inr demo_segment
   \<and> seg_events demo_segment = [demo_event]
   \<and> map (astype_int demo_trc_env) (ev_labels demo_event) = map Inr [0, 5, 5]
   \<and> ev_times demo_event = [10, 20, 30]"
  using read_trc_events_unfiltered [OF read_trc_demo] read_trc_demo
  by (simp add: demo_trc_env_def demo_segment_def demo_event_def demo_astype_int_def)

text \<open>
  Claim C1 as stated fails: on the example recording, whose event stream has the labels
  0, 5, 5, \<open>read_trc\<close> returns the events \<open>[0,5,5]\<close>, with a zero code and a run
  of identical codes, where the trigger extraction would give \<open>[5]\<close>.
\<close>

theorem read_trc_returns_zero_and_run:
  "read_trc demo_trc_env ''rec.TRC'' =
     Inr \<lparr>rec_sf = 512, rec_raw = [[1, 2], [3, 4]], rec_seeg_chan = [''EEG1'', ''EEG2''],
          rec_trig_event = [0, 5, 5], rec_trig_time = [10, 20, 30]\<rparr>
   \<and> extract_events (Arr1 [0, 5, 5]) (Arr1 [10, 20, 30 :: int]) = Inr ([5], [20])"
  using read_trc_demo
  by (simp add: extract_events_def first_only_def where_nz_def take_idx_def
      mask_select_def upt_rec)

text \<open>
  Claim C2. On the trigger line \<open>[0,0,5,5,0,0,3,3,3]\<close> with times \<open>[0,...,8]\<close> the
  extraction returns the events \<open>[5,3]\<close> with the times \<open>[2,6]\<close>. In general, for a
  trigger line and a time vector of equal length, it returns the codes and the times at
  the positions after the first whose value differs from the previous sample and is not
  zero, in the original order.
\<close>

theorem extract_events_example_and_rule:
  "extract_events (Arr1 [0, 0, 5, 5, 0, 0, 3, 3, 3]) (Arr1 [0, 1, 2, 3, 4, 5, 6, 7, 8 :: int])
     = Inr ([5, 3], [2, 6])
   \<and> (\<forall>ev (ts :: 't list). length ts = length ev \<longrightarrow>
         extract_events (Arr1 ev) (Arr1 ts) =
           Inr (map (\<lambda>i. ev ! i) (spec_kept_positions ev),
                map (\<lambda>i. ts ! i) (spec_kept_positions ev)))"
proof (intro conjI allI impI)
  show "extract_events (Arr1 [0, 0, 5, 5, 0, 0, 3, 3, 3])
          (Arr1 [0, 1, 2, 3, 4, 5, 6, 7, 8 :: int]) = Inr ([5, 3], [2, 6])"
    by (simp add: extract_events_def first_only_def where_nz_def take_idx_def
        mask_select_def upt_rec)
next
  fix ev :: "64 word list" and ts :: "'t list"
  assume "length ts = length ev"
  then show "extract_events (Arr1 ev) (Arr1 ts) =
           Inr (map (\<lambda>i. ev ! i) (spec_kept_positions ev),
                map (\<lambda>i. ts ! i) (spec_kept_positions ev))"
    by (simp add: extract_events_spec_positions)
qed

theorem extract_events_rule_witness:
  "length [10, 11, 12, 13 :: int] = length [0, 4, 4, 0 :: 64 word]
   \<and> extract_events (Arr1 [0, 4, 4, 0]) (Arr1 [10, 11, 12, 13 :: int]) = Inr ([4], [11])"
  using extract_events_example_and_rule
          [THEN conjunct2, rule_format, of "[10, 11, 12, 13 :: int]" "[0, 4, 4, 0]"]
  by (simp add: spec_kept_positions_def upt_rec)

text \<open>
  Claim C4 says that a trigger line whose values are all identical gives empty events
  and empty times and no error. Lines 245 to 251 do so on every line that reaches them
  with one dimension, the line \<open>[7,7,7]\<close> among them. A trigger line of one sample
  reaches them squeezed to zero dimensions by line 243, and line 245 raises
  \<open>IndexError\<close>: the read of a raw file with a single sample ends with that error.
\<close>

theorem constant_line_of_one_sample_raises:
  "h5_raw demo_h5_one = Some [[11], [21], [7]]
   \<and> read_pramat demo_one_sample_env ''/data'' = (Inl IndexError, [])
   \<and> extract_events (squeeze [7]) (squeeze [0 :: int]) = Inl IndexError
   \<and> extract_events (squeeze [7, 7, 7]) (squeeze [0, 1, 2 :: int]) = Inr ([], [])"
proof -
  have a: "extract_events (squeeze [7]) (squeeze [0 :: int]) = Inl IndexError"
    by (rule extract_events_squeezed_single)
  have b: "extract_events (squeeze [7, 7, 7]) (squeeze [0, 1, 2 :: int]) = Inr ([], [])"
    using extract_events_constant_squeezed [of 3 "[0, 1, 2 :: int]" 7]
    by (simp add: numeral_3_eq_3)
  from a b show ?thesis
    by (simp add: demo_one_sample_read demo_h5_one_def)
qed

text \<open>
  Claim C3, as amended. The HDF5 backend is always tried. An exception raised by the
  HDF5 or by the scipy backend before any name is read is logged and leaves both lists
  empty. The next backend is tried exactly when the name list and the type list are both
  still empty, so the chain stops at the first backend that yields a non-empty name list
  or a non-empty type list. The mat73 backend runs outside any \<open>try\<close>: its exception
  is not logged and leaves the reader as it is. When the chain ends with lists, an empty
  name list, an empty type list or lists of different lengths raise
  \<open>AssertionError\<close>.
\<close>

theorem header_chain:
  fixes env :: "'v mat_env"
  shows
    "(h5py_header env p = Decoded cn ct \<and> (cn \<noteq> [] \<or> ct \<noteq> [])
        \<longrightarrow> decode_header env p = (Inr (cn, ct), []))
   \<and> ((h5py_header env p = Raised \<or> h5py_header env p = Decoded [] [])
        \<and> scipy_header env p = Decoded cn ct \<and> (cn \<noteq> [] \<or> ct \<noteq> [])
        \<longrightarrow> decode_header env p =
              (Inr (cn, ct), if h5py_header env p = Raised then [msg_hdf5] else []))
   \<and> ((h5py_header env p = Raised \<or> h5py_header env p = Decoded [] [])
        \<and> (scipy_header env p = Raised \<or> scipy_header env p = Decoded [] [])
        \<longrightarrow> decode_header env p =
              (mat73_header env p,
               (if h5py_header env p = Raised then [msg_hdf5] else [])
                 @ (if scipy_header env p = Raised then [msg_scipy] else [])))
   \<and> (decode_header env p = (Inl e, lg) \<longrightarrow> channels env p = (Inl e, lg))
   \<and> (decode_header env p = (Inr (cn, ct), lg) \<and> (cn = [] \<or> ct = [] \<or> length cn \<noteq> length ct)
        \<longrightarrow> channels env p = (Inl AssertionError, lg))"
proof (intro conjI impI)
  assume "h5py_header env p = Decoded cn ct \<and> (cn \<noteq> [] \<or> ct \<noteq> [])"
  then show "decode_header env p = (Inr (cn, ct), [])"
    by (simp add: decode_header_h5)
next
  assume a: "(h5py_header env p = Raised \<or> h5py_header env p = Decoded [] [])
        \<and> scipy_header env p = Decoded cn ct \<and> (cn \<noteq> [] \<or> ct \<noteq> [])"
  then have "decode_header env p = (Inr (cn, ct), snd (try_backend (h5py_header env p) msg_hdf5))"
    by (intro decode_header_scipy) simp_all
  with a show "decode_header env p =
              (Inr (cn, ct), if h5py_header env p = Raised then [msg_hdf5] else [])"
    by (auto simp: try_backend_def)
next
  assume a: "(h5py_header env p = Raised \<or> h5py_header env p = Decoded [] [])
        \<and> (scipy_header env p = Raised \<or> scipy_header env p = Decoded [] [])"
  then have "decode_header env p =
           (mat73_header env p,
            snd (try_backend (h5py_header env p) msg_hdf5)
              @ snd (try_backend (scipy_header env p) msg_scipy))"
    by (intro decode_header_mat73) simp_all
  with a show "decode_header env p =
              (mat73_header env p,
               (if h5py_header env p = Raised then [msg_hdf5] else [])
                 @ (if scipy_header env p = Raised then [msg_scipy] else []))"
    by (auto simp: try_backend_def)
next
  assume "decode_header env p = (Inl e, lg)"
  then show "channels env p = (Inl e, lg)" by (rule channels_error)
next
  assume "decode_header env p = (Inr (cn, ct), lg) \<and> (cn = [] \<or> ct = [] \<or> length cn \<noteq> length ct)"
  then show "channels env p = (Inl AssertionError, lg)"
    using channels_assert [of env p cn ct lg] by blast
qed

theorem header_chain_witness:
  "decode_header (demo_mat_env [''iEEG.mat''] (Decoded demo_names demo_types) Raised (Inl DecodeError))
      ''/data/alignedData/H.mat'' = (Inr (demo_names, demo_types), [])
   \<and> decode_header (demo_mat_env [''iEEG.mat''] Raised (Decoded demo_names demo_types) (Inl DecodeError))
      ''/data/alignedData/H.mat'' = (Inr (demo_names, demo_types), [msg_hdf5])
   \<and> decode_header (demo_mat_env [''iEEG.mat''] Raised Raised (Inr (demo_names, demo_types)))
      ''/data/alignedData/H.mat'' = (Inr (demo_names, demo_types), [msg_hdf5, msg_scipy])
   \<and> decode_header (demo_mat_env [''iEEG.mat''] Raised Raised (Inl DecodeError))
      ''/data/alignedData/H.mat'' = (Inl DecodeError, [msg_hdf5, msg_scipy])
   \<and> channels (demo_mat_env [''iEEG.mat''] Raised Raised (Inl DecodeError))
      ''/data/alignedData/H.mat'' = (Inl DecodeError, [msg_hdf5, msg_scipy])
   \<and> decode_header (demo_mat_env [''iEEG.mat''] Raised Raised (Inr ([], [])))
      ''/data/alignedData/H.mat'' = (Inr ([], []), [msg_hdf5, msg_scipy])
   \<and> channels (demo_mat_env [''iEEG.mat''] Raised Raised (Inr ([], [])))
      ''/data/alignedData/H.mat'' = (Inl AssertionError, [msg_hdf5, msg_scipy])"
proof -
  let ?p = "''/data/alignedData/H.mat''"
  let ?e1 = "demo_mat_env [''iEEG.mat''] (Decoded demo_names demo_types) Raised (Inl DecodeError)"
  let ?e2 = "demo_mat_env [''iEEG.mat''] Raised (Decoded demo_names demo_types) (Inl DecodeError)"
  let ?e3 = "demo_mat_env [''iEEG.mat''] Raised Raised (Inr (demo_names, demo_types))"
  let ?e4 = "demo_mat_env [''iEEG.mat''] Raised Raised (Inl DecodeError) :: int mat_env"
  let ?e5 = "demo_mat_env [''iEEG.mat''] Raised Raised (Inr ([], [])) :: int mat_env"
  have n: "demo_names \<noteq> []" by (simp add: demo_names_def)
  have 1: "decode_header ?e1 ?p = (Inr (demo_names, demo_types), [])"
    using header_chain [of ?e1 ?p demo_names demo_types, THEN conjunct1] n
    by (simp add: demo_env_fields)
  have 2: "decode_header ?e2 ?p = (Inr (demo_names, demo_types), [msg_hdf5])"
    using header_chain [of ?e2 ?p demo_names demo_types, THEN conjunct2, THEN conjunct1] n
    by (simp add: demo_env_fields)
  have 3: "decode_header ?e3 ?p = (Inr (demo_names, demo_types), [msg_hdf5, msg_scipy])"
    using header_chain [of ?e3 ?p, THEN conjunct2, THEN conjunct2, THEN conjunct1]
    by (simp add: demo_env_fields)
  have 4: "decode_header ?e4 ?p = (Inl DecodeError, [msg_hdf5, msg_scipy])"
    using header_chain [of ?e4 ?p, THEN conjunct2, THEN conjunct2, THEN conjunct1]
    by (simp add: demo_env_fields)
  have 5: "channels ?e4 ?p = (Inl DecodeError, [msg_hdf5, msg_scipy])"
    using header_chain [of ?e4 ?p _ _ DecodeError "[msg_hdf5, msg_scipy]",
        THEN conjunct2, THEN conjunct2, THEN conjunct2, THEN conjunct1] 4
    by simp
  have 6: "decode_header ?e5 ?p = (Inr ([], []), [msg_hdf5, msg_scipy])"
    using header_chain [of ?e5 ?p, THEN conjunct2, THEN conjunct2, THEN conjunct1]
    by (simp add: demo_env_fields)
  have 7: "channels ?e5 ?p = (Inl AssertionError, [msg_hdf5, msg_scipy])"
    using header_chain [of ?e5 ?p "[]" "[]" _ "[msg_hdf5, msg_scipy]",
        THEN conjunct2, THEN conjunct2, THEN conjunct2, THEN conjunct2] 6
    by simp
  from 1 2 3 4 5 6 7 show ?thesis by blast
qed

text \<open>
  Claim C3 as stated fails in two ways. When all three backends raise, the error of the
  mat73 backend leaves the reader, not an \<open>AssertionError\<close>, and only two failures
  are logged. When the HDF5 backend yields names but no types, the chain stops there
  and the assertion fails, although the next backend would have decoded the header.
\<close>

theorem header_chain_not_as_claimed:
  "channels (demo_mat_env [''iEEG.mat''] Raised Raised (Inl DecodeError))
      ''/data/alignedData/H.mat'' = (Inl DecodeError, [msg_hdf5, msg_scipy])
   \<and> channels (demo_mat_env [''iEEG.mat''] (Decoded [''a1''] [])
        (Decoded demo_names demo_types) (Inr (demo_names, demo_types)))
      ''/data/alignedData/H.mat'' = (Inl AssertionError, [])"
  by (simp add: channels_def decode_header_def try_backend_def select_seeg_def demo_env_fields)



text \<open>
  Claim C6. Whenever the matrix reader returns, the mask is the comparison of each type
  label of the decoded header with \<open>SEEG\<close>, the returned channel names are the
  upper-case names at the positions whose label is \<open>SEEG\<close>, and the returned rows
  are the rows of the raw matrix at these positions.
\<close>

theorem pramat_channel_selection:
  fixes env :: "'v mat_env"
  assumes "decode_header env path_head = (Inr (cn, ct), lg)"
    and "h5py_File env path_raw = Inr f" and "h5_raw f = Some rows"
    and "fst (read_paths env path_head path_raw) = Inr r"
  shows "fst (channels env path_head) = Inr (map (\<lambda>t. t = ''SEEG'') ct, rec_seeg_chan r)
       \<and> rec_seeg_chan r = map (\<lambda>i. upper (cn ! i)) (seeg_positions ct)
       \<and> rec_raw r = map (\<lambda>i. rows ! i) (seeg_positions ct)"
proof -
  from read_paths_Inr [OF assms(4)] assms(1) obtain m chan where
    s: "select_seeg cn ct = Inr (m, chan)" and l: "load_raw env path_raw m chan = Inr r"
    by auto
  from load_raw_Inr [OF l] assms(2,3) have
    h: "h5_mask_rows rows m = Inr (rec_raw r)" and c: "rec_seeg_chan r = chan"
    by auto
  note ss = select_seeg_Inr(4,5) [OF s]
  have 1: "fst (channels env path_head) = Inr (map (\<lambda>t. t = ''SEEG'') ct, rec_seeg_chan r)"
    using assms(1) s ss c by (simp add: channels_def)
  have 2: "rec_seeg_chan r = map (\<lambda>i. upper (cn ! i)) (seeg_positions ct)"
    using ss c by simp
  have 3: "rec_raw r = map (\<lambda>i. rows ! i) (seeg_positions ct)"
    using h5_mask_rows_Inr(2) [OF h] ss(1)
    by (simp add: true_positions_map seeg_positions_def)
  from 1 2 3 show ?thesis by blast
qed

theorem pramat_channel_selection_witness:
  "decode_header (demo_mat_env [''a.mat'', ''iEEG.mat''] (Decoded demo_names demo_types) Raised
       (Inl DecodeError)) ''/data/alignedData/H.mat'' = (Inr (demo_names, demo_types), [])
   \<and> h5py_File (demo_mat_env [''a.mat'', ''iEEG.mat''] (Decoded demo_names demo_types) Raised
       (Inl DecodeError)) ''/data/rawData/amplifierData/iEEG.mat'' = Inr demo_h5
   \<and> h5_raw demo_h5 = Some [[11, 12, 13, 14, 15, 16, 17, 18, 19],
                            [21, 22, 23, 24, 25, 26, 27, 28, 29],
                            [0, 0, 5, 5, 0, 0, 3, 3, 3]]
   \<and> fst (read_paths (demo_mat_env [''a.mat'', ''iEEG.mat''] (Decoded demo_names demo_types) Raised
       (Inl DecodeError)) ''/data/alignedData/H.mat'' ''/data/rawData/amplifierData/iEEG.mat'')
       = Inr \<lparr>rec_sf = 512,
              rec_raw = [[11, 12, 13, 14, 15, 16, 17, 18, 19],
                         [21, 22, 23, 24, 25, 26, 27, 28, 29]],
              rec_seeg_chan = [''A1'', ''B1''], rec_trig_event = [5, 3],
              rec_trig_time = [2, 6]\<rparr>
   \<and> seeg_positions demo_types = [0, 1]
   \<and> map (\<lambda>t. t = ''SEEG'') demo_types = [True, True, False]
   \<and> [''A1'', ''B1''] = [upper (demo_names ! 0), upper (demo_names ! 1)]"
proof -
  let ?e = "demo_mat_env [''a.mat'', ''iEEG.mat''] (Decoded demo_names demo_types) Raised
       (Inl DecodeError)"
  have a: "decode_header ?e ''/data/alignedData/H.mat'' = (Inr (demo_names, demo_types), [])"
    by (rule decode_header_h5) (simp_all add: demo_env_fields demo_names_def)
  note b = demo_open_present [of "Decoded demo_names demo_types" Raised "Inl DecodeError"]
  have c: "h5_raw demo_h5 = Some [[11, 12, 13, 14, 15, 16, 17, 18, 19],
                            [21, 22, 23, 24, 25, 26, 27, 28, 29],
                            [0, 0, 5, 5, 0, 0, 3, 3, 3]]"
    by (simp add: demo_h5_def)
  have d: "fst (read_paths ?e ''/data/alignedData/H.mat'' ''/data/rawData/amplifierData/iEEG.mat'')
       = Inr \<lparr>rec_sf = 512,
              rec_raw = [[11, 12, 13, 14, 15, 16, 17, 18, 19],
                         [21, 22, 23, 24, 25, 26, 27, 28, 29]],
              rec_seeg_chan = [''A1'', ''B1''], rec_trig_event = [5, 3],
              rec_trig_time = [2, 6]\<rparr>"
    by (simp add: demo_read_paths)
  have e: "seeg_positions demo_types = [0, 1]"
    by (simp add: seeg_positions_def demo_types_def upt_rec)
  have f: "map (\<lambda>t. t = ''SEEG'') demo_types = [True, True, False]"
    by (simp add: demo_types_def)
  from pramat_channel_selection [OF a b c d] a b c d e f
  show ?thesis by simp
qed

text \<open>
  Claim C7. Whenever \<open>read_trc\<close> returns on a container whose event streams have
  one time for each label, and whenever \<open>read_pramat\<close> returns, the returned raw
  matrix has as many rows as there are channel names, and there are as many trigger
  events as trigger times.
\<close>

theorem readers_lengths:
  fixes env :: "'v trc_env" and menv :: "'w mat_env"
  shows "(micromed_read env bloc = Inr seg \<and> list_all neo_event_ok (seg_events seg)
            \<and> read_trc env bloc = Inr r
          \<longrightarrow> length (rec_raw r) = length (rec_seeg_chan r)
              \<and> length (rec_trig_event r) = length (rec_trig_time r))
       \<and> (fst (read_pramat menv mat_root) = Inr r'
          \<longrightarrow> length (rec_raw r') = length (rec_seeg_chan r')
              \<and> length (rec_trig_event r') = length (rec_trig_time r'))"
proof (intro conjI impI)
  assume a: "micromed_read env bloc = Inr seg \<and> list_all neo_event_ok (seg_events seg)
            \<and> read_trc env bloc = Inr r"
  then show "length (rec_raw r) = length (rec_seeg_chan r)"
    using read_trc_lengths [of env bloc r] by blast
  from a have "\<forall>s. micromed_read env bloc = Inr s \<longrightarrow> list_all neo_event_ok (seg_events s)"
    by auto
  with a show "length (rec_trig_event r) = length (rec_trig_time r)"
    using read_trc_events [of env bloc r] by blast
next
  assume "fst (read_pramat menv mat_root) = Inr r'"
  then show "length (rec_raw r') = length (rec_seeg_chan r')"
    and "length (rec_trig_event r') = length (rec_trig_time r')"
    by (rule read_pramat_lengths)+
qed

theorem readers_lengths_witness:
  "micromed_read demo_trc_env ''rec.TRC'' = Inr demo_segment
   \<and> list_all neo_event_ok (seg_events demo_segment)
   \<and> read_trc demo_trc_env ''rec.TRC'' =
       Inr \<lparr>rec_sf = 512, rec_raw = [[1, 2], [3, 4]], rec_seeg_chan = [''EEG1'', ''EEG2''],
            rec_trig_event = [0, 5, 5], rec_trig_time = [10, 20, 30]\<rparr>
   \<and> length [[1, 2], [3, 4 :: int]] = length [''EEG1'', ''EEG2'']
   \<and> length [0, 5, 5 :: 64 word] = length [10, 20, 30 :: int]
   \<and> fst (read_pramat
            (demo_mat_env [''a.mat'', ''iEEG.mat''] (Decoded demo_names demo_types) Raised
               (Inl DecodeError)) ''/data'') =
       Inr \<lparr>rec_sf = 512,
            rec_raw = [[11, 12, 13, 14, 15, 16, 17, 18, 19],
                       [21, 22, 23, 24, 25, 26, 27, 28, 29]],
            rec_seeg_chan = [''A1'', ''B1''], rec_trig_event = [5, 3], rec_trig_time = [2, 6]\<rparr>
   \<and> length [[11, 12, 13, 14, 15, 16, 17, 18, 19], [21, 22, 23, 24, 25, 26, 27, 28, 29 :: int]]
       = length [''A1'', ''B1'']
   \<and> length [5, 3 :: 64 word] = length [2, 6 :: int]"
proof -
  have a: "micromed_read demo_trc_env ''rec.TRC'' = Inr demo_segment"
    by (simp add: demo_trc_env_def)
  have b: "list_all neo_event_ok (seg_events demo_segment)"
    by (simp add: demo_segment_def demo_event_def neo_event_ok_def)
  note c = read_trc_demo
  note d = demo_read_pramat [of Raised "Inl DecodeError"]
  from readers_lengths [of demo_trc_env "''rec.TRC''" demo_segment _
      "demo_mat_env [''a.mat'', ''iEEG.mat''] (Decoded demo_names demo_types) Raised
               (Inl DecodeError)" "''/data''"] a b c d
  show ?thesis by simp
qed

text \<open>
  Claim C8, as amended. When the path is not an existing file, \<open>read_trc\<close> raises
  \<open>AssertionError\<close>; when the root is not a directory, \<open>read_pramat\<close> raises
  \<open>AssertionError\<close> with nothing logged. Both hold whatever the decoders would do,
  so no decoding comes first.
\<close>

theorem readers_assert_input_first:
  fixes env :: "'v trc_env" and menv :: "'w mat_env"
  shows "(\<not> isfile env bloc \<longrightarrow> read_trc env bloc = Inl AssertionError)
       \<and> (\<not> isdir menv mat_root \<longrightarrow> read_pramat menv mat_root = (Inl AssertionError, []))"
  by (simp add: read_trc_not_file read_pramat_not_dir)

theorem readers_assert_input_first_witness:
  "\<not> isfile demo_trc_env ''missing.TRC''
   \<and> read_trc demo_trc_env ''missing.TRC'' = Inl AssertionError
   \<and> \<not> isdir (demo_mat_env [''iEEG.mat''] Raised Raised (Inl DecodeError)) ''/nodir''
   \<and> read_pramat (demo_mat_env [''iEEG.mat''] Raised Raised (Inl DecodeError)) ''/nodir''
       = (Inl AssertionError, [])"
  using readers_assert_input_first [of demo_trc_env "''missing.TRC''"
      "demo_mat_env [''iEEG.mat''] Raised Raised (Inl DecodeError)" "''/nodir''"]
  by (simp add: demo_trc_env_def demo_env_fields)

text \<open>
  Claim C8 as stated fails: the error for a missing file is \<open>AssertionError\<close>, not
  \<open>FileNotFoundError\<close>, and the error for a missing directory is
  \<open>AssertionError\<close>, not \<open>NotADirectoryError\<close>.
\<close>

theorem missing_input_not_os_error:
  "read_trc demo_trc_env ''missing.TRC'' = Inl AssertionError
   \<and> read_trc demo_trc_env ''missing.TRC'' \<noteq> Inl FileNotFoundError
   \<and> fst (read_pramat (demo_mat_env [''iEEG.mat''] Raised Raised (Inl DecodeError)) ''/nodir'')
       = Inl AssertionError
   \<and> fst (read_pramat (demo_mat_env [''iEEG.mat''] Raised Raised (Inl DecodeError)) ''/nodir'')
       \<noteq> Inl NotADirectoryError"
  by (simp add: read_trc_def read_pramat_def demo_trc_env_def demo_env_fields)




text \<open>
  Claim C10. When the raw directory lists more than one file, the raw path is the one of
  \<open>iEEG.mat\<close> whatever the listing holds; and when the header is decoded and opening
  that path fails, the error of the open is the error of the read, after the message of
  the narrowing.
\<close>

theorem narrowing_ignores_listing:
  fixes env :: "'v mat_env"
  assumes "listdir env (join mat_root ''alignedData'') = Inr [h]"
    and "listdir env (join (join mat_root ''rawData'') ''amplifierData'') = Inr files"
    and "1 < length files"
  shows
    "build_path env mat_root =
          (Inr (join (join mat_root ''alignedData'') h,
                join (join (join mat_root ''rawData'') ''amplifierData'') ''iEEG.mat''),
           [msg_multiple])
   \<and> (isdir env mat_root
        \<and> channels env (join (join mat_root ''alignedData'') h) = (Inr (is_seeg, seeg_chan), lg)
        \<and> h5py_File env (join (join (join mat_root ''rawData'') ''amplifierData'') ''iEEG.mat'')
            = Inl e
      \<longrightarrow> read_pramat env mat_root = (Inl e, msg_multiple # lg))"
proof (intro conjI impI)
  show bp: "build_path env mat_root =
          (Inr (join (join mat_root ''alignedData'') h,
                join (join (join mat_root ''rawData'') ''amplifierData'') ''iEEG.mat''),
           [msg_multiple])"
    using assms by (rule build_path_many)
  assume a: "isdir env mat_root
        \<and> channels env (join (join mat_root ''alignedData'') h) = (Inr (is_seeg, seeg_chan), lg)
        \<and> h5py_File env (join (join (join mat_root ''rawData'') ''amplifierData'') ''iEEG.mat'')
            = Inl e"
  then have d: "isdir env mat_root" by simp
  from a have "read_paths env (join (join mat_root ''alignedData'') h)
          (join (join (join mat_root ''rawData'') ''amplifierData'') ''iEEG.mat'') = (Inl e, lg)"
    by (intro read_paths_open_error) simp_all
  then show "read_pramat env mat_root = (Inl e, msg_multiple # lg)"
    using read_pramat_paths [OF d bp] by simp
qed

theorem narrowing_ignores_listing_witness:
  "listdir (demo_mat_env [''a.mat'', ''b.mat''] (Decoded demo_names demo_types) Raised
              (Inl DecodeError)) (join ''/data'' ''alignedData'') = Inr [''H.mat'']
   \<and> listdir (demo_mat_env [''a.mat'', ''b.mat''] (Decoded demo_names demo_types) Raised
              (Inl DecodeError)) (join (join ''/data'' ''rawData'') ''amplifierData'')
       = Inr [''a.mat'', ''b.mat'']
   \<and> 1 < length [''a.mat'', ''b.mat'']
   \<and> ''iEEG.mat'' \<notin> set [''a.mat'', ''b.mat'']
   \<and> build_path (demo_mat_env [''a.mat'', ''b.mat''] (Decoded demo_names demo_types) Raised
              (Inl DecodeError)) ''/data''
       = (Inr (''/data/alignedData/H.mat'', ''/data/rawData/amplifierData/iEEG.mat''),
          [msg_multiple])
   \<and> read_pramat (demo_mat_env [''a.mat'', ''b.mat''] (Decoded demo_names demo_types) Raised
              (Inl DecodeError)) ''/data''
       = (Inl FileNotFoundError, [msg_multiple])"
proof -
  let ?e = "demo_mat_env [''a.mat'', ''b.mat''] (Decoded demo_names demo_types) Raised
              (Inl DecodeError)"
  have l1: "listdir ?e (join ''/data'' ''alignedData'') = Inr [''H.mat'']"
    and l2: "listdir ?e (join (join ''/data'' ''rawData'') ''amplifierData'')
       = Inr [''a.mat'', ''b.mat'']"
    by (simp_all add: demo_paths demo_env_fields)
  have m: "1 < length [''a.mat'', ''b.mat'']" by simp
  note t = narrowing_ignores_listing [OF l1 l2 m,
      of "[True, True, False]" "[''A1'', ''B1'']" "[]" FileNotFoundError]
  have a: "build_path ?e ''/data''
       = (Inr (''/data/alignedData/H.mat'', ''/data/rawData/amplifierData/iEEG.mat''),
          [msg_multiple])"
    using t by (simp add: demo_paths)
  have b: "read_pramat ?e ''/data'' = (Inl FileNotFoundError, [msg_multiple])"
    using t by (simp add: demo_paths demo_env_fields demo_channels demo_open_absent)
  from l1 l2 a b show ?thesis by simp
qed

end
